theory Spec2Isabelle
  imports Complex_Main "HOL-Library.Word"
begin

section \<open>JavaScript values handled by the identity client\<close>

text \<open>
  The model follows \<^verbatim>\<open>IdentityClient\<close> of
  \<^verbatim>\<open>src/packages/backend/src/index.ts\<close> (lines 156 to 274 of the file).

  A JavaScript string is a sequence of UTF-16 code units. Literals of the source are
  written with \<open>ustr\<close>, which maps each character of an Isabelle string to the
  code unit of the same number.

  A JavaScript number is a double. The client only divides one clock reading by 1000
  and compares numbers, so numbers are kept as exact rationals; rounding, NaN and the
  infinities are outside the model.
\<close>

type_synonym js_string = "16 word list"

definition ustr :: "string \<Rightarrow> js_string" where
  "ustr s = map (\<lambda>c. of_nat (of_char c)) s"

text \<open>
  \<^verbatim>\<open>`${n}`\<close> for a number that is a natural number (the status code of a response):
  its decimal digits.
\<close>

fun js_string_of_nat :: "nat \<Rightarrow> js_string" where
  "js_string_of_nat n =
     (if n < 10 then [of_nat (48 + n)]
      else js_string_of_nat (n div 10) @ [of_nat (48 + n mod 10)])"

declare js_string_of_nat.simps [simp del]

text \<open>
  A parsed JSON document, as \<^verbatim>\<open>response.json()\<close> yields it. The fields of an object are
  an association list, read with \<open>map_of\<close>.
\<close>

datatype json =
    JNull
  | JBool bool
  | JNumber rat
  | JString js_string
  | JArray "json list"
  | JObject "(js_string \<times> json) list"

text \<open>
  What the client throws, or lets through from a collaborator:
  \<^item> \<open>Error m\<close> is \<^verbatim>\<open>new Error(m)\<close>, raised by the client itself;
  \<^item> \<open>TypeError\<close> is the runtime's error for \<^verbatim>\<open>publicKeys.keys.map\<close> when
    \<^verbatim>\<open>publicKeys.keys\<close> is not an array;
  \<^item> \<open>MalformedToken\<close> is the exception of \<^verbatim>\<open>JWT.decode\<close>;
  \<^item> \<open>InvalidToken\<close> is the exception of \<^verbatim>\<open>JWT.IdToken.verify\<close>;
  \<^item> \<open>FetchError\<close> is a rejection of \<^verbatim>\<open>fetch(url)\<close>, \<^verbatim>\<open>response.text()\<close> or
    \<^verbatim>\<open>response.json()\<close>;
  \<^item> \<open>KeyError\<close> is the exception of \<^verbatim>\<open>JWK.asKey\<close>.
  The client has no \<^verbatim>\<open>catch\<close>: an exception of a collaborator leaves
  \<^verbatim>\<open>authenticate\<close> as it was raised.
\<close>

datatype error =
    Error js_string
  | TypeError
  | MalformedToken
  | InvalidToken
  | FetchError
  | KeyError

definition MissingToken :: error where
  "MissingToken = Error (ustr ''No bearer token found in authorization header'')"

definition UnknownKey :: error where
  "UnknownKey = Error (ustr ''No signing key matching token found'')"

section \<open>Collaborators\<close>

text \<open>
  The \<^verbatim>\<open>jose\<close> library, \<^verbatim>\<open>cross-fetch\<close> and the discovery service are imported by the
  source, not part of it. The model takes them as parameters.
\<close>

record key =
  key_kid :: js_string
  key_data :: json

record jwt_header =
  kid :: js_string
  alg :: js_string

record jwt_payload =
  iat :: "rat option"
  sub :: js_string
  aud :: js_string
  iss :: js_string
  exp_claim :: "rat option"
  nbf_claim :: "rat option"

text \<open>
  The result of \<^verbatim>\<open>JWT.decode(token, {complete: true})\<close>. The source reads
  \<^verbatim>\<open>header.kid\<close> and \<^verbatim>\<open>payload?.iat\<close>: the payload may be nullish, and
  \<^verbatim>\<open>iat\<close> may be missing.
\<close>

record decoded_jwt =
  header :: jwt_header
  payload :: "jwt_payload option"

text \<open>
  The pure functions of \<^verbatim>\<open>jose\<close>: \<open>jwt_decode\<close> is \<^verbatim>\<open>JWT.decode\<close>
  (\<open>None\<close> when it throws), \<open>signature_valid t k a\<close> tells whether the signature of the
  compact token \<open>t\<close> verifies under key \<open>k\<close> with algorithm \<open>a\<close>, and \<open>asKey\<close> is
  \<^verbatim>\<open>JWK.asKey\<close> (\<open>None\<close> when it throws).
\<close>

record jose =
  jwt_decode :: "js_string \<Rightarrow> decoded_jwt option"
  signature_valid :: "js_string \<Rightarrow> key \<Rightarrow> js_string \<Rightarrow> bool"
  asKey :: "json \<Rightarrow> key option"

text \<open>
  A response of \<^verbatim>\<open>fetch\<close>: \<open>ok\<close>, \<open>status\<close> and \<open>statusText\<close> are the properties the
  source reads (\<open>ok\<close> is the flag of the Fetch API for a status in the success range);
  \<open>resp_text\<close> and \<open>resp_json\<close> are the results of \<^verbatim>\<open>response.text()\<close> and
  \<^verbatim>\<open>response.json()\<close>, \<open>None\<close> when the promise rejects (the body cannot be read, or
  is not JSON).
\<close>

record response =
  ok :: bool
  status :: nat
  statusText :: js_string
  resp_text :: "js_string option"
  resp_json :: "json option"

text \<open>
  What one call of \<^verbatim>\<open>authenticate\<close> meets outside the client: \<open>now_seconds\<close> is the
  value of \<^verbatim>\<open>Date.now() / 1000\<close> in \<^verbatim>\<open>refreshKeyStore\<close>, that is the double that the
  division of the clock reading yields, seconds with a fraction, taken as the rational
  number it is; \<open>fetch u\<close> is the response to a GET of \<open>u\<close> (\<open>None\<close> when the promise
  rejects); \<open>verify_time\<close> is the current time in seconds when the token is verified.
\<close>

record world =
  now_seconds :: rat
  fetch :: "js_string \<Rightarrow> response option"
  verify_time :: rat

section \<open>The key store and the verification of the library\<close>

text \<open>
  The key store of the client is a \<^verbatim>\<open>JWKS.KeyStore\<close>, built from the list of keys
  the source gives to its constructor and read with \<^verbatim>\<open>get({kid})\<close>.
\<close>

type_synonym key_store = "key list"

text \<open>
  Modelled from the spec: \<^verbatim>\<open>JWKS.KeyStore\<close> of the \<^verbatim>\<open>jose\<close> library is not under src/.
  The spec has its \<open>Lookup(kid)\<close> return the key of that identifier in the snapshot, or
  absent; among several keys of one identifier the first stands for the mapping.
\<close>

definition KeyStore_get :: "key_store \<Rightarrow> js_string \<Rightarrow> key option" where
  "KeyStore_get ks k = find (\<lambda>key. key_kid key = k) ks"

record verify_options =
  opt_algorithms :: "js_string list"
  opt_audience :: js_string
  opt_issuer :: js_string

text \<open>
  Modelled from the spec: the time check of \<^verbatim>\<open>JWT.IdToken.verify\<close> of the \<^verbatim>\<open>jose\<close>
  library is not under src/. The spec has the expiration and the not-before time hold
  relative to the current time if present: the token has not expired, and its not-before
  time has come.
\<close>

definition time_valid :: "jwt_payload \<Rightarrow> rat \<Rightarrow> bool" where
  "time_valid p now =
     ((case exp_claim p of None \<Rightarrow> True | Some e \<Rightarrow> now < e) \<and>
      (case nbf_claim p of None \<Rightarrow> True | Some n \<Rightarrow> n \<le> now))"

text \<open>
  Modelled from the spec: \<^verbatim>\<open>JWT.IdToken.verify\<close> of the \<^verbatim>\<open>jose\<close> library is not under
  src/. The spec has it verify the signature with the algorithms it is given (no other is
  accepted), require the audience and the issuer to equal the expected ones, and require
  the expiration and the not-before time to hold; any failure is \<open>InvalidToken\<close>.
  Whether a signature verifies is the parameter \<open>signature_valid\<close>. The result is the
  payload of the token, which the source reads \<^verbatim>\<open>sub\<close> from.
\<close>

definition IdToken_verify ::
  "jose \<Rightarrow> js_string \<Rightarrow> key \<Rightarrow> verify_options \<Rightarrow> rat \<Rightarrow> error + jwt_payload" where
  "IdToken_verify lib token k opts now =
     (case jwt_decode lib token of
        None \<Rightarrow> Inl InvalidToken
      | Some d \<Rightarrow>
          (case payload d of
             None \<Rightarrow> Inl InvalidToken
           | Some p \<Rightarrow>
               if alg (header d) \<notin> set (opt_algorithms opts) then Inl InvalidToken
               else if \<not> signature_valid lib token k (alg (header d)) then Inl InvalidToken
               else if aud p \<noteq> opt_audience opts then Inl InvalidToken
               else if iss p \<noteq> opt_issuer opts then Inl InvalidToken
               else if \<not> time_valid p now then Inl InvalidToken
               else Inr p))"

section \<open>IdentityClient\<close>

text \<open>
  The fields of the class. \<open>discovery\<close> is \<^verbatim>\<open>discovery.getBaseUrl\<close>; the backend
  constructs the client with a discovery that computes the URL from the configuration.
\<close>

record identity_client =
  discovery :: "js_string \<Rightarrow> js_string"
  issuer :: js_string
  keyStore :: key_store
  keyStoreUpdated :: rat

record BackstageIdentity =
  identity_id :: js_string
  idToken :: js_string

text \<open>The constructor (lines 162 to 167): an empty key store, updated at 0.\<close>

definition new_IdentityClient :: "(js_string \<Rightarrow> js_string) \<Rightarrow> js_string \<Rightarrow> identity_client" where
  "new_IdentityClient d i =
     \<lparr>discovery = d, issuer = i, keyStore = [], keyStoreUpdated = 0\<rparr>"

subsection \<open>getBearerToken\<close>

text \<open>
  The value of the authorization header: \<^verbatim>\<open>undefined\<close>, a string, or (at run time, where
  the declared type is not enforced) a value that is not a string.
\<close>

datatype header_value = HUndefined | HString js_string | HOther

text \<open>
  \<^verbatim>\<open>\s\<close> of a JavaScript regular expression: the white space and line terminator code
  units.
\<close>

definition is_space :: "16 word \<Rightarrow> bool" where
  "is_space c =
     (c \<in> set [0x9, 0xA, 0xB, 0xC, 0xD, 0x20, 0xA0, 0x1680, 0x2028, 0x2029, 0x202F,
               0x205F, 0x3000, 0xFEFF]
      \<or> (0x2000 \<le> c \<and> c \<le> 0x200A))"

text \<open>
  The flag \<^verbatim>\<open>i\<close>: two code units match when their canonical forms are equal. Against the
  letters of \<^verbatim>\<open>Bearer\<close> only the ASCII letters matter (the canonical form of a code unit
  above 127 is never an ASCII letter), so the canonical form is taken on ASCII only.
\<close>

definition canonicalize :: "16 word \<Rightarrow> 16 word" where
  "canonicalize c = (if 0x61 \<le> c \<and> c \<le> 0x7A then c - 0x20 else c)"

text \<open>
  \<^verbatim>\<open>/Bearer\s+(\S+)/i\<close> tried at the start of \<open>s\<close>: the six letters, the longest run of
  white space (at least one), the longest run of other code units (at least one), which
  is group 1. A shorter run of white space never helps, as the next code unit is then
  white space.
\<close>

definition match_at :: "js_string \<Rightarrow> js_string option" where
  "match_at s =
     (if map canonicalize (take 6 s) = ustr ''BEARER'' then
        (let r = drop 6 s;
             rest = dropWhile is_space r;
             tok = takeWhile (\<lambda>c. \<not> is_space c) rest
         in if takeWhile is_space r \<noteq> [] \<and> tok \<noteq> [] then Some tok else None)
      else None)"

text \<open>
  \<^verbatim>\<open>String.prototype.match\<close> with a regular expression that has no anchor and no flag
  \<^verbatim>\<open>g\<close>: the match at the leftmost position of the string where there is one.
\<close>

fun regex_match :: "js_string \<Rightarrow> js_string option" where
  "regex_match [] = match_at []"
| "regex_match (c # cs) =
     (case match_at (c # cs) of Some t \<Rightarrow> Some t | None \<Rightarrow> regex_match cs)"

definition getBearerToken :: "header_value \<Rightarrow> js_string option" where
  "getBearerToken authorizationHeader =
     (case authorizationHeader of
        HString s \<Rightarrow> regex_match s
      | _ \<Rightarrow> None)"

subsection \<open>listPublicKeys and refreshKeyStore\<close>

definition jwks_url :: "identity_client \<Rightarrow> js_string" where
  "jwks_url c = discovery c (ustr ''auth'') @ ustr ''/.well-known/jwks.json''"

text \<open>
  The second component of the result is the list of the URLs requested with
  \<^verbatim>\<open>fetch\<close>.
\<close>

definition listPublicKeys :: "world \<Rightarrow> identity_client \<Rightarrow> (error + json) \<times> js_string list" where
  "listPublicKeys w c =
     (let url = jwks_url c in
      case fetch w url of
        None \<Rightarrow> (Inl FetchError, [url])
      | Some r \<Rightarrow>
          if \<not> ok r then
            (case resp_text r of
               None \<Rightarrow> (Inl FetchError, [url])
             | Some body \<Rightarrow>
                 (Inl (Error (ustr ''Request failed with '' @ js_string_of_nat (status r)
                              @ ustr '' '' @ statusText r @ ustr '', '' @ body)), [url]))
          else
            (case resp_json r of
               None \<Rightarrow> (Inl FetchError, [url])
             | Some publicKeys \<Rightarrow> (Inr publicKeys, [url])))"

text \<open>
  \<^verbatim>\<open>publicKeys.keys\<close> as an array that \<^verbatim>\<open>.map\<close> can run over; \<open>None\<close> when the
  expression raises a TypeError (no object, no field \<^verbatim>\<open>keys\<close>, or a field that is not an
  array).
\<close>

definition keys_of :: "json \<Rightarrow> json list option" where
  "keys_of j =
     (case j of
        JObject fs \<Rightarrow>
          (case map_of fs (ustr ''keys'') of
             Some (JArray ks) \<Rightarrow> Some ks
           | _ \<Rightarrow> None)
      | _ \<Rightarrow> None)"

text \<open>\<^verbatim>\<open>keys.map(key => JWK.asKey(key))\<close>: the first exception ends the loop.\<close>

fun map_asKey :: "(json \<Rightarrow> key option) \<Rightarrow> json list \<Rightarrow> key list option" where
  "map_asKey f [] = Some []"
| "map_asKey f (j # js) =
     (case f j of
        None \<Rightarrow> None
      | Some k \<Rightarrow> (case map_asKey f js of None \<Rightarrow> None | Some ks \<Rightarrow> Some (k # ks)))"

definition refreshKeyStore ::
  "jose \<Rightarrow> world \<Rightarrow> identity_client \<Rightarrow> (error + unit) \<times> identity_client \<times> js_string list" where
  "refreshKeyStore lib w c =
     (let now = now_seconds w in
      case listPublicKeys w c of
        (Inl e, fs) \<Rightarrow> (Inl e, c, fs)
      | (Inr publicKeys, fs) \<Rightarrow>
          (case keys_of publicKeys of
             None \<Rightarrow> (Inl TypeError, c, fs)
           | Some js \<Rightarrow>
               (case map_asKey (asKey lib) js of
                  None \<Rightarrow> (Inl KeyError, c, fs)
                | Some ks \<Rightarrow>
                    (Inr (), c\<lparr>keyStore := ks, keyStoreUpdated := now\<rparr>, fs))))"

subsection \<open>getKey\<close>

text \<open>
  \<^verbatim>\<open>payload?.iat && payload.iat > this.keyStoreUpdated\<close>: a missing payload, a missing
  \<^verbatim>\<open>iat\<close> and the number 0 are falsy.
\<close>

definition iat_of :: "decoded_jwt \<Rightarrow> rat option" where
  "iat_of d = (case payload d of None \<Rightarrow> None | Some p \<Rightarrow> iat p)"

definition issued_after :: "decoded_jwt \<Rightarrow> rat \<Rightarrow> bool" where
  "issued_after d updated =
     (case iat_of d of None \<Rightarrow> False | Some t \<Rightarrow> t \<noteq> 0 \<and> t > updated)"

definition getKey ::
  "jose \<Rightarrow> world \<Rightarrow> identity_client \<Rightarrow> js_string
     \<Rightarrow> (error + key option) \<times> identity_client \<times> js_string list" where
  "getKey lib w c rawJwtToken =
     (case jwt_decode lib rawJwtToken of
        None \<Rightarrow> (Inl MalformedToken, c, [])
      | Some d \<Rightarrow>
          if KeyStore_get (keyStore c) (kid (header d)) = None
             \<and> issued_after d (keyStoreUpdated c)
          then
            (case refreshKeyStore lib w c of
               (Inl e, c', fs) \<Rightarrow> (Inl e, c', fs)
             | (Inr u, c', fs) \<Rightarrow> (Inr (KeyStore_get (keyStore c') (kid (header d))), c', fs))
          else (Inr (KeyStore_get (keyStore c) (kid (header d))), c, []))"

subsection \<open>authenticate\<close>

text \<open>The options of the call of \<^verbatim>\<open>JWT.IdToken.verify\<close> (lines 191 to 195).\<close>

definition verify_options_of :: "identity_client \<Rightarrow> verify_options" where
  "verify_options_of c =
     \<lparr>opt_algorithms = [ustr ''ES256''], opt_audience = ustr ''backstage'',
      opt_issuer = issuer c\<rparr>"

text \<open>
  The result of a call: what the promise settles to (\<open>Inl\<close> when it rejects), the client
  after the call, and the URLs requested with \<^verbatim>\<open>fetch\<close> during the call.
  \<^verbatim>\<open>!token\<close> holds for \<^verbatim>\<open>null\<close> and for the empty string.
\<close>

definition authenticate ::
  "jose \<Rightarrow> world \<Rightarrow> identity_client \<Rightarrow> header_value
     \<Rightarrow> (error + BackstageIdentity) \<times> identity_client \<times> js_string list" where
  "authenticate lib w c authorizationHeader =
     (case getBearerToken authorizationHeader of
        None \<Rightarrow> (Inl MissingToken, c, [])
      | Some token \<Rightarrow>
          if token = [] then (Inl MissingToken, c, [])
          else
            (case getKey lib w c token of
               (Inl e, c', fs) \<Rightarrow> (Inl e, c', fs)
             | (Inr None, c', fs) \<Rightarrow> (Inl UnknownKey, c', fs)
             | (Inr (Some k), c', fs) \<Rightarrow>
                 (case IdToken_verify lib token k (verify_options_of c') (verify_time w) of
                    Inl e \<Rightarrow> (Inl e, c', fs)
                  | Inr decoded \<Rightarrow>
                      (Inr \<lparr>identity_id = sub decoded, idToken = token\<rparr>, c', fs))))"

text \<open>
  \<^verbatim>\<open>authenticate\<close> is an asynchronous function; the model is one call run from its start
  to its end on the client it finds, with the results of the awaited collaborators taken
  from the world. What other calls do to the client in between is outside the model.
\<close>

section \<open>An example deployment\<close>

text \<open>
  A small instance on which the definitions are evaluated: a library that decodes three
  tokens and accepts every signature, an issuer that publishes one key \<open>k1\<close>, an issuer
  that is down, and clients with an empty and with a filled key store.
\<close>

definition demo_key :: key where
  "demo_key = \<lparr>key_kid = ustr ''k1'', key_data = JString (ustr ''k1'')\<rparr>"

definition demo_payload :: jwt_payload where
  "demo_payload =
     \<lparr>iat = Some 100, sub = ustr ''user:default/jane'', aud = ustr ''backstage'',
      iss = ustr ''http://auth'', exp_claim = Some 4000, nbf_claim = None\<rparr>"

definition demo_decoded :: decoded_jwt where
  "demo_decoded =
     \<lparr>header = \<lparr>kid = ustr ''k1'', alg = ustr ''ES256''\<rparr>, payload = Some demo_payload\<rparr>"

definition demo_jose :: jose where
  "demo_jose =
     \<lparr>jwt_decode = (\<lambda>t.
        if t = ustr ''h.p.s'' then Some demo_decoded
        else if t = ustr ''h.a.s'' then
          Some (demo_decoded\<lparr>payload := Some (demo_payload\<lparr>aud := ustr ''other''\<rparr>)\<rparr>)
        else if t = ustr ''h.z.s'' then
          Some (demo_decoded\<lparr>payload := Some (demo_payload\<lparr>iat := Some 0\<rparr>)\<rparr>)
        else None),
      signature_valid = (\<lambda>t k a. True),
      asKey = (\<lambda>j. case j of JString k \<Rightarrow> Some \<lparr>key_kid = k, key_data = j\<rparr> | _ \<Rightarrow> None)\<rparr>"

definition demo_jwks :: response where
  "demo_jwks =
     \<lparr>ok = True, status = 200, statusText = ustr ''OK'', resp_text = None,
      resp_json = Some (JObject [(ustr ''keys'', JArray [JString (ustr ''k1'')])])\<rparr>"

definition demo_world :: world where
  "demo_world = \<lparr>now_seconds = 401 / 2, fetch = (\<lambda>u. Some demo_jwks), verify_time = 201\<rparr>"

definition demo_world_down :: world where
  "demo_world_down =
     \<lparr>now_seconds = 401 / 2,
      fetch = (\<lambda>u. Some \<lparr>ok = False, status = 503, statusText = ustr ''Service Unavailable'',
                          resp_text = Some (ustr ''down''), resp_json = None\<rparr>),
      verify_time = 201\<rparr>"




definition demo_world_later :: world where
  "demo_world_later = \<lparr>now_seconds = 900, fetch = (\<lambda>u. None), verify_time = 900\<rparr>"

definition demo_client :: identity_client where
  "demo_client = new_IdentityClient (\<lambda>p. ustr ''http://'' @ p) (ustr ''http://auth'')"

definition demo_client_k1 :: identity_client where
  "demo_client_k1 = demo_client\<lparr>keyStore := [demo_key], keyStoreUpdated := 50\<rparr>"

definition demo_client_fetched :: identity_client where
  "demo_client_fetched = demo_client\<lparr>keyStore := [demo_key], keyStoreUpdated := 401 / 2\<rparr>"

definition demo_identity :: BackstageIdentity where
  "demo_identity = \<lparr>identity_id = ustr ''user:default/jane'', idToken = ustr ''h.p.s''\<rparr>"

definition demo_url :: js_string where
  "demo_url = ustr ''http://auth/.well-known/jwks.json''"

definition demo_failure :: error where
  "demo_failure = Error (ustr ''Request failed with 503 Service Unavailable, down'')"

section \<open>Basic facts\<close>

subsection \<open>The header parser\<close>

lemma match_at_nonempty: "match_at s = Some t \<Longrightarrow> t \<noteq> []"
  by (auto simp: match_at_def Let_def split: if_splits)

lemma regex_match_nonempty: "regex_match s = Some t \<Longrightarrow> t \<noteq> []"
  by (induction s) (auto simp: match_at_nonempty split: option.splits)

lemma getBearerToken_nonempty: "getBearerToken h = Some t \<Longrightarrow> t \<noteq> []"
  by (cases h) (auto simp: getBearerToken_def regex_match_nonempty)

lemma getBearerToken_not_a_string:
  "getBearerToken HUndefined = None" "getBearerToken HOther = None"
  by (simp_all add: getBearerToken_def)

lemma authenticate_no_bearer:
  "getBearerToken hdr = None \<Longrightarrow> authenticate lib w c hdr = (Inl MissingToken, c, [])"
  by (simp add: authenticate_def)

text \<open>The search finds nothing exactly when the expression matches at no position.\<close>

lemma regex_match_None_iff:
  "regex_match s = None \<longleftrightarrow> (\<forall>n \<le> length s. match_at (drop n s) = None)"
proof (induction s)
  case Nil
  then show ?case by simp
next
  case (Cons c cs)
  have "(\<forall>n \<le> length (c # cs). match_at (drop n (c # cs)) = None)
        \<longleftrightarrow> match_at (c # cs) = None \<and> (\<forall>n \<le> length cs. match_at (drop n cs) = None)"
  proof
    assume a: "\<forall>n \<le> length (c # cs). match_at (drop n (c # cs)) = None"
    have "match_at (c # cs) = None" using a [rule_format, of 0] by simp
    moreover have "match_at (drop n cs) = None" if "n \<le> length cs" for n
      using a [rule_format, of "Suc n"] that by simp
    ultimately show "match_at (c # cs) = None \<and> (\<forall>n \<le> length cs. match_at (drop n cs) = None)"
      by blast
  next
    assume a: "match_at (c # cs) = None \<and> (\<forall>n \<le> length cs. match_at (drop n cs) = None)"
    show "\<forall>n \<le> length (c # cs). match_at (drop n (c # cs)) = None"
    proof (intro allI impI)
      fix n assume "n \<le> length (c # cs)"
      then show "match_at (drop n (c # cs)) = None"
        using a by (cases n) auto
    qed
  qed
  with Cons show ?case by (auto split: option.splits)
qed

text \<open>
  A header that starts with the scheme in any case, then white space, then a token, gives
  the token up to the next white space.
\<close>

lemma match_at_bearer:
  assumes "map canonicalize b = ustr ''BEARER''"
    and "ws \<noteq> []" and "\<forall>x \<in> set ws. is_space x"
    and "tok \<noteq> []" and "\<forall>x \<in> set tok. \<not> is_space x"
    and "rest = [] \<or> is_space (hd rest)"
  shows "match_at (b @ ws @ tok @ rest) = Some tok"
proof -
  have len: "length b = 6"
    using arg_cong [OF assms(1), of length] by (simp add: ustr_def)
  have d: "dropWhile is_space (ws @ tok @ rest) = tok @ rest"
    using assms(3,4,5) by (cases tok) (simp_all add: dropWhile_append)
  have t: "takeWhile is_space (ws @ tok @ rest) \<noteq> []"
    using assms(2,3) by (cases ws) simp_all
  have k: "takeWhile (\<lambda>c. \<not> is_space c) (tok @ rest) = tok"
    using assms(5,6) by (cases rest) (simp_all add: takeWhile_append)
  show ?thesis
    using len assms(1,4) d t k by (simp add: match_at_def)
qed

subsection \<open>The refresh and the key lookup\<close>

lemma map_asKey_None: "map_asKey f js = None \<longleftrightarrow> (\<exists>j \<in> set js. f j = None)"
  by (induction js) (auto split: option.splits)

lemma listPublicKeys_log: "snd (listPublicKeys w c) = [jwks_url c]"
  by (simp add: listPublicKeys_def Let_def split: option.splits)

lemma refreshKeyStore_log: "snd (snd (refreshKeyStore lib w c)) = [jwks_url c]"
  using listPublicKeys_log [of w c]
  by (auto simp: refreshKeyStore_def Let_def split: prod.splits sum.splits option.splits)

lemma refreshKeyStore_failure:
  "fst (refreshKeyStore lib w c) = Inl e \<Longrightarrow> fst (snd (refreshKeyStore lib w c)) = c"
  by (auto simp: refreshKeyStore_def Let_def split: prod.splits sum.splits option.splits)

lemma refreshKeyStore_success:
  assumes "fetch w (jwks_url c) = Some r" "ok r" "resp_json r = Some j" "keys_of j = Some js"
    "map_asKey (asKey lib) js = Some ks"
  shows "refreshKeyStore lib w c =
           (Inr (), c\<lparr>keyStore := ks, keyStoreUpdated := now_seconds w\<rparr>, [jwks_url c])"
  using assms by (simp add: refreshKeyStore_def listPublicKeys_def Let_def)

lemma refreshKeyStore_issuer: "issuer (fst (snd (refreshKeyStore lib w c))) = issuer c"
  by (auto simp: refreshKeyStore_def Let_def split: prod.splits sum.splits option.splits)

lemma getKey_hit:
  "jwt_decode lib t = Some d \<Longrightarrow> KeyStore_get (keyStore c) (kid (header d)) = Some k \<Longrightarrow>
   getKey lib w c t = (Inr (Some k), c, [])"
  by (simp add: getKey_def)

lemma getKey_miss_stale:
  "jwt_decode lib t = Some d \<Longrightarrow> KeyStore_get (keyStore c) (kid (header d)) = None \<Longrightarrow>
   \<not> issued_after d (keyStoreUpdated c) \<Longrightarrow> getKey lib w c t = (Inr None, c, [])"
  by (simp add: getKey_def)

lemma getKey_miss_refresh:
  "jwt_decode lib t = Some d \<Longrightarrow> KeyStore_get (keyStore c) (kid (header d)) = None \<Longrightarrow>
   issued_after d (keyStoreUpdated c) \<Longrightarrow>
   getKey lib w c t =
     (case refreshKeyStore lib w c of
        (Inl e, c', fs) \<Rightarrow> (Inl e, c', fs)
      | (Inr u, c', fs) \<Rightarrow> (Inr (KeyStore_get (keyStore c') (kid (header d))), c', fs))"
  by (simp add: getKey_def)

lemma getKey_issuer: "issuer (fst (snd (getKey lib w c t))) = issuer c"
  using refreshKeyStore_issuer [of lib w c]
  by (auto simp: getKey_def split: option.splits prod.splits sum.splits)

lemma getKey_found_in_store:
  "getKey lib w c t = (Inr (Some k), c', fs) \<Longrightarrow> jwt_decode lib t = Some d \<Longrightarrow>
   KeyStore_get (keyStore c') (kid (header d)) = Some k"
  by (auto simp: getKey_def split: option.splits prod.splits sum.splits if_splits)






text \<open>
  The time of the last refresh is never negative: it is 0 in a new client, and a clock
  reading after a refresh (the clock reads the time since 1970).
\<close>

lemma new_IdentityClient_updated: "keyStoreUpdated (new_IdentityClient d i) = 0"
  by (simp add: new_IdentityClient_def)

lemma authenticate_keyStoreUpdated_nonneg:
  "0 \<le> keyStoreUpdated c \<Longrightarrow> 0 \<le> now_seconds w \<Longrightarrow>
   0 \<le> keyStoreUpdated (fst (snd (authenticate lib w c hdr)))"
  by (auto simp: authenticate_def getKey_def refreshKeyStore_def Let_def
           split: option.splits prod.splits sum.splits if_splits)

subsection \<open>When the token is reported missing\<close>

lemma refreshKeyStore_not_MissingToken:
  "fst (refreshKeyStore lib w c) \<noteq> Inl MissingToken"
  by (auto simp: refreshKeyStore_def listPublicKeys_def Let_def MissingToken_def ustr_def
           split: option.splits prod.splits sum.splits if_splits)

text \<open>
  \<open>authenticate\<close> fails with \<open>MissingToken\<close> exactly when \<open>getBearerToken\<close> finds no
  token: the header is no string, or the expression matches at no position of it.
\<close>

lemma authenticate_MissingToken_iff:
  "fst (authenticate lib w c hdr) = Inl MissingToken \<longleftrightarrow> getBearerToken hdr = None"
proof
  assume "getBearerToken hdr = None"
  then show "fst (authenticate lib w c hdr) = Inl MissingToken"
    by (simp add: authenticate_no_bearer)
next
  assume a: "fst (authenticate lib w c hdr) = Inl MissingToken"
  show "getBearerToken hdr = None"
  proof (rule ccontr)
    assume "getBearerToken hdr \<noteq> None"
    then obtain token where t: "getBearerToken hdr = Some token" by auto
    have ne: "token \<noteq> []" using t by (rule getBearerToken_nonempty)
    have u: "UnknownKey \<noteq> MissingToken" "InvalidToken \<noteq> MissingToken"
      "MalformedToken \<noteq> MissingToken"
      by (simp_all add: UnknownKey_def MissingToken_def ustr_def)
    show False
      using a t ne u refreshKeyStore_not_MissingToken [of lib w c]
      by (auto simp: authenticate_def getKey_def IdToken_verify_def
               split: option.splits prod.splits sum.splits if_splits)
  qed
qed

subsection \<open>The example deployment\<close>

lemma bearer_hps: "getBearerToken (HString (ustr ''Bearer h.p.s'')) = Some (ustr ''h.p.s'')"
  by (simp add: getBearerToken_def match_at_def canonicalize_def is_space_def ustr_def)

lemma bearer_has: "getBearerToken (HString (ustr ''Bearer h.a.s'')) = Some (ustr ''h.a.s'')"
  by (simp add: getBearerToken_def match_at_def canonicalize_def is_space_def ustr_def)

lemma bearer_hzs: "getBearerToken (HString (ustr ''bearer  h.z.s'')) = Some (ustr ''h.z.s'')"
  by (simp add: getBearerToken_def match_at_def canonicalize_def is_space_def ustr_def)

lemma bearer_xyz: "getBearerToken (HString (ustr ''Bearer xyz'')) = Some (ustr ''xyz'')"
  by (simp add: getBearerToken_def match_at_def canonicalize_def is_space_def ustr_def)

lemma bearer_empty:
  "getBearerToken (HString (ustr ''Bearer '')) = None"
  "getBearerToken (HString (ustr ''Bearer'')) = None"
  "getBearerToken (HString (ustr ''Basic dXNlcjpwdw=='')) = None"
  by (simp_all add: getBearerToken_def match_at_def canonicalize_def is_space_def ustr_def)

lemma decode_hps: "jwt_decode demo_jose (ustr ''h.p.s'') = Some demo_decoded"
  by (simp add: demo_jose_def)

lemma decode_has:
  "jwt_decode demo_jose (ustr ''h.a.s'')
     = Some (demo_decoded\<lparr>payload := Some (demo_payload\<lparr>aud := ustr ''other''\<rparr>)\<rparr>)"
  by (simp add: demo_jose_def ustr_def)

lemma decode_hzs:
  "jwt_decode demo_jose (ustr ''h.z.s'')
     = Some (demo_decoded\<lparr>payload := Some (demo_payload\<lparr>iat := Some 0\<rparr>)\<rparr>)"
  by (simp add: demo_jose_def ustr_def)

lemma decode_xyz: "jwt_decode demo_jose (ustr ''xyz'') = None"
  by (simp add: demo_jose_def ustr_def)

lemma demo_jwks_url: "jwks_url demo_client = demo_url"
  by (simp add: jwks_url_def demo_client_def new_IdentityClient_def demo_url_def ustr_def)

lemma demo_miss: "KeyStore_get (keyStore demo_client) k = None"
  by (simp add: KeyStore_get_def demo_client_def new_IdentityClient_def)

lemma demo_hit: "KeyStore_get (keyStore demo_client_k1) (kid (header demo_decoded)) = Some demo_key"
  by (simp add: KeyStore_get_def demo_client_k1_def demo_decoded_def demo_key_def)

lemma demo_issued_after: "issued_after demo_decoded (keyStoreUpdated demo_client)"
  by (simp add: issued_after_def iat_of_def demo_decoded_def demo_payload_def demo_client_def
        new_IdentityClient_def)

lemma demo_verify:
  "issuer c = ustr ''http://auth'' \<Longrightarrow> now < 4000 \<Longrightarrow>
   IdToken_verify demo_jose (ustr ''h.p.s'') demo_key (verify_options_of c) now = Inr demo_payload"
  by (simp add: IdToken_verify_def verify_options_of_def time_valid_def demo_jose_def
        demo_decoded_def demo_payload_def)

lemma demo_issuer:
  "issuer demo_client = ustr ''http://auth''"
  "issuer demo_client_k1 = ustr ''http://auth''"
  "issuer demo_client_fetched = ustr ''http://auth''"
  by (simp_all add: demo_client_def demo_client_k1_def demo_client_fetched_def
        new_IdentityClient_def)

lemma demo_fetch:
  "fetch demo_world (jwks_url demo_client) = Some demo_jwks"
  "ok demo_jwks"
  "resp_json demo_jwks = Some (JObject [(ustr ''keys'', JArray [JString (ustr ''k1'')])])"
  "keys_of (JObject [(ustr ''keys'', JArray [JString (ustr ''k1'')])])
     = Some [JString (ustr ''k1'')]"
  "map_asKey (asKey demo_jose) [JString (ustr ''k1'')] = Some [demo_key]"
  by (simp_all add: demo_world_def demo_jwks_def keys_of_def demo_jose_def demo_key_def)

lemma demo_status: "js_string_of_nat 503 = ustr ''503''"
  by (simp add: js_string_of_nat.simps ustr_def)

lemma demo_down:
  "refreshKeyStore demo_jose demo_world_down demo_client
     = (Inl demo_failure, demo_client, [demo_url])"
  by (simp add: refreshKeyStore_def listPublicKeys_def Let_def demo_jwks_url demo_world_down_def
        demo_status demo_failure_def ustr_def)

text \<open>
  A first call on the new client: the key is missing, the token is newer than the store,
  the keys are fetched once and the token is accepted.
\<close>

lemma demo_fresh_call:
  "authenticate demo_jose demo_world demo_client (HString (ustr ''Bearer h.p.s''))
     = (Inr demo_identity, demo_client_fetched, [demo_url])"
proof -
  have "refreshKeyStore demo_jose demo_world demo_client =
          (Inr (), demo_client\<lparr>keyStore := [demo_key],
                                keyStoreUpdated := now_seconds demo_world\<rparr>,
           [jwks_url demo_client])"
    by (rule refreshKeyStore_success [OF demo_fetch])
  then have r: "refreshKeyStore demo_jose demo_world demo_client
                  = (Inr (), demo_client_fetched, [demo_url])"
    by (simp add: demo_jwks_url demo_client_fetched_def demo_world_def)
  have g: "getKey demo_jose demo_world demo_client (ustr ''h.p.s'')
             = (Inr (Some demo_key), demo_client_fetched, [demo_url])"
    using getKey_miss_refresh [OF decode_hps demo_miss demo_issued_after, of demo_world] r
    by (simp add: demo_client_fetched_def KeyStore_get_def demo_decoded_def demo_key_def)
  have v: "IdToken_verify demo_jose (ustr ''h.p.s'') demo_key
             (verify_options_of demo_client_fetched) (verify_time demo_world) = Inr demo_payload"
    by (rule demo_verify) (simp_all add: demo_issuer demo_world_def)
  show ?thesis
    using bearer_hps g v
    by (simp add: authenticate_def demo_identity_def demo_payload_def ustr_def)
qed




section \<open>The claims\<close>

subsection \<open>C1: a valid token of a known key\<close>

text \<open>
  C1. For every header from which a bearer token is extracted, whose key identifier is in
  the key store and which the verification accepts with that key, \<open>authenticate\<close>
  returns the identity whose id is the subject claim of the token and whose \<open>idToken\<close> is
  the very token extracted from the header. The client is left as it was and nothing is
  fetched.
\<close>

theorem authenticate_valid_token:
  assumes "getBearerToken hdr = Some token"
    and "jwt_decode lib token = Some d"
    and "KeyStore_get (keyStore c) (kid (header d)) = Some k"
    and "IdToken_verify lib token k (verify_options_of c) (verify_time w) = Inr p"
  shows "authenticate lib w c hdr = (Inr \<lparr>identity_id = sub p, idToken = token\<rparr>, c, [])
         \<and> payload d = Some p"
proof -
  have ne: "token \<noteq> []"
    using assms(1) by (rule getBearerToken_nonempty)
  have key: "getKey lib w c token = (Inr (Some k), c, [])"
    using assms(2,3) by (rule getKey_hit)
  have pl: "payload d = Some p"
    using assms(2,4) by (auto simp: IdToken_verify_def split: option.splits if_splits)
  show ?thesis
    using assms(1,4) ne key pl by (simp add: authenticate_def)
qed

theorem authenticate_valid_token_witness:
  "getBearerToken (HString (ustr ''Bearer h.p.s'')) = Some (ustr ''h.p.s'')
   \<and> jwt_decode demo_jose (ustr ''h.p.s'') = Some demo_decoded
   \<and> KeyStore_get (keyStore demo_client_k1) (kid (header demo_decoded)) = Some demo_key
   \<and> IdToken_verify demo_jose (ustr ''h.p.s'') demo_key (verify_options_of demo_client_k1)
        (verify_time demo_world) = Inr demo_payload
   \<and> authenticate demo_jose demo_world demo_client_k1 (HString (ustr ''Bearer h.p.s''))
       = (Inr \<lparr>identity_id = ustr ''user:default/jane'', idToken = ustr ''h.p.s''\<rparr>,
          demo_client_k1, [])"
proof -
  have h4: "IdToken_verify demo_jose (ustr ''h.p.s'') demo_key (verify_options_of demo_client_k1)
        (verify_time demo_world) = Inr demo_payload"
    by (rule demo_verify) (simp_all add: demo_issuer demo_world_def)
  show ?thesis
    using authenticate_valid_token [OF bearer_hps decode_hps demo_hit h4]
      bearer_hps decode_hps demo_hit h4
    by (simp add: demo_payload_def)
qed

subsection \<open>C2: a token of an unknown key\<close>




subsection \<open>C3: headers without a bearer token\<close>

text \<open>
  C3. A header of the wrong scheme is not always refused as a missing token. The
  regular expression of \<open>getBearerToken\<close> has no anchor, so it is searched for anywhere in
  the header: from \<^verbatim>\<open>Basic Bearer h.p.s\<close>, whose scheme is \<^verbatim>\<open>Basic\<close>, the token
  \<^verbatim>\<open>h.p.s\<close> is extracted, and in the example deployment the call returns an identity.
\<close>

theorem authenticate_wrong_scheme:
  "getBearerToken (HString (ustr ''Basic Bearer h.p.s'')) = Some (ustr ''h.p.s'')
   \<and> authenticate demo_jose demo_world demo_client_k1 (HString (ustr ''Basic Bearer h.p.s''))
        = (Inr demo_identity, demo_client_k1, [])"
proof -
  have b: "getBearerToken (HString (ustr ''Basic Bearer h.p.s'')) = Some (ustr ''h.p.s'')"
    by (simp add: getBearerToken_def match_at_def canonicalize_def is_space_def ustr_def)
  have g: "getKey demo_jose demo_world demo_client_k1 (ustr ''h.p.s'')
             = (Inr (Some demo_key), demo_client_k1, [])"
    using decode_hps demo_hit by (rule getKey_hit)
  have v: "IdToken_verify demo_jose (ustr ''h.p.s'') demo_key (verify_options_of demo_client_k1)
             (verify_time demo_world) = Inr demo_payload"
    by (rule demo_verify) (simp_all add: demo_issuer demo_world_def)
  have "authenticate demo_jose demo_world demo_client_k1 (HString (ustr ''Basic Bearer h.p.s''))
        = (Inr demo_identity, demo_client_k1, [])"
    unfolding authenticate_def b using g v
    by (simp add: demo_identity_def demo_payload_def ustr_def)
  with b show ?thesis by simp
qed

subsection \<open>C4: the algorithm, the audience and the issuer\<close>

text \<open>
  C4. Once a key is found for the token, the verification is called with the single
  algorithm \<^verbatim>\<open>ES256\<close>, the audience \<^verbatim>\<open>backstage\<close> and the issuer of the client; a token
  whose algorithm, audience or issuer differs from these makes \<open>authenticate\<close> fail with
  \<open>InvalidToken\<close>, whatever \<open>signature_valid\<close> says of its signature.
\<close>

theorem authenticate_checks_claims:
  assumes "getBearerToken hdr = Some token"
    and "jwt_decode lib token = Some d"
    and "payload d = Some p"
    and "getKey lib w c token = (Inr (Some k), c', fs)"
    and "alg (header d) \<noteq> ustr ''ES256'' \<or> aud p \<noteq> ustr ''backstage'' \<or> iss p \<noteq> issuer c"
  shows "verify_options_of c' =
           \<lparr>opt_algorithms = [ustr ''ES256''], opt_audience = ustr ''backstage'',
            opt_issuer = issuer c\<rparr>
         \<and> authenticate lib w c hdr = (Inl InvalidToken, c', fs)"
proof -
  have ne: "token \<noteq> []"
    using assms(1) by (rule getBearerToken_nonempty)
  have iss: "issuer c' = issuer c"
    using getKey_issuer [of lib w c token] assms(4) by simp
  have opts: "verify_options_of c' =
           \<lparr>opt_algorithms = [ustr ''ES256''], opt_audience = ustr ''backstage'',
            opt_issuer = issuer c\<rparr>"
    by (simp add: verify_options_of_def iss)
  have "IdToken_verify lib token k (verify_options_of c') (verify_time w) = Inl InvalidToken"
    using assms(2,3,5) unfolding opts by (auto simp: IdToken_verify_def)
  then show ?thesis
    using opts assms(1,4) ne by (simp add: authenticate_def)
qed

theorem authenticate_checks_claims_witness:
  "getBearerToken (HString (ustr ''Bearer h.a.s'')) = Some (ustr ''h.a.s'')
   \<and> jwt_decode demo_jose (ustr ''h.a.s'')
        = Some (demo_decoded\<lparr>payload := Some (demo_payload\<lparr>aud := ustr ''other''\<rparr>)\<rparr>)
   \<and> getKey demo_jose demo_world demo_client_k1 (ustr ''h.a.s'')
        = (Inr (Some demo_key), demo_client_k1, [])
   \<and> aud (demo_payload\<lparr>aud := ustr ''other''\<rparr>) \<noteq> ustr ''backstage''
   \<and> signature_valid demo_jose (ustr ''h.a.s'') demo_key (ustr ''ES256'')
   \<and> authenticate demo_jose demo_world demo_client_k1 (HString (ustr ''Bearer h.a.s''))
        = (Inl InvalidToken, demo_client_k1, [])"
proof -
  have h3: "payload (demo_decoded\<lparr>payload := Some (demo_payload\<lparr>aud := ustr ''other''\<rparr>)\<rparr>)
              = Some (demo_payload\<lparr>aud := ustr ''other''\<rparr>)"
    by simp
  have h4: "getKey demo_jose demo_world demo_client_k1 (ustr ''h.a.s'')
        = (Inr (Some demo_key), demo_client_k1, [])"
    using demo_hit by (simp add: getKey_def decode_has demo_decoded_def)
  have ne: "aud (demo_payload\<lparr>aud := ustr ''other''\<rparr>) \<noteq> ustr ''backstage''"
    by (simp add: ustr_def)
  have h5: "alg (header (demo_decoded\<lparr>payload := Some (demo_payload\<lparr>aud := ustr ''other''\<rparr>)\<rparr>))
              \<noteq> ustr ''ES256''
            \<or> aud (demo_payload\<lparr>aud := ustr ''other''\<rparr>) \<noteq> ustr ''backstage''
            \<or> iss (demo_payload\<lparr>aud := ustr ''other''\<rparr>) \<noteq> issuer demo_client_k1"
    using ne by simp
  have sv: "signature_valid demo_jose (ustr ''h.a.s'') demo_key (ustr ''ES256'')"
    by (simp add: demo_jose_def)
  show ?thesis
    using authenticate_checks_claims [OF bearer_has decode_has h3 h4 h5] bearer_has decode_has
      h4 ne sv
    by simp
qed

subsection \<open>C5: a token that cannot be decoded\<close>

text \<open>
  C5. For every bearer token that \<^verbatim>\<open>JWT.decode\<close> refuses, \<open>authenticate\<close> fails with
  \<open>MalformedToken\<close>, whatever the key store holds and whatever the issuer would answer:
  the client is left as it was and nothing is fetched.
\<close>

theorem authenticate_malformed_token:
  assumes "getBearerToken hdr = Some token"
    and "jwt_decode lib token = None"
  shows "authenticate lib w c hdr = (Inl MalformedToken, c, [])"
  using assms getBearerToken_nonempty [OF assms(1)]
  by (simp add: authenticate_def getKey_def)

theorem authenticate_malformed_token_witness:
  "getBearerToken (HString (ustr ''Bearer xyz'')) = Some (ustr ''xyz'')
   \<and> jwt_decode demo_jose (ustr ''xyz'') = None
   \<and> authenticate demo_jose demo_world demo_client (HString (ustr ''Bearer xyz''))
        = (Inl MalformedToken, demo_client, [])"
  using authenticate_malformed_token [OF bearer_xyz decode_xyz] bearer_xyz decode_xyz
  by simp

subsection \<open>C6: failures of the key fetch\<close>

text \<open>
  C6. When the issuer answers the request for the key set, the refresh fails and leaves
  the client as it was in each of these cases:
  \<^item> the response is not \<open>ok\<close> (its status is not in the success range); the error is then
    raised by \<open>listPublicKeys\<close>, and when the body of the response can be read its message
    is \<^verbatim>\<open>Request failed with\<close>, the status code, the status text, a comma and the body;
  \<^item> the body is not JSON;
  \<^item> the JSON has no array \<^verbatim>\<open>keys\<close>;
  \<^item> one of the records of \<^verbatim>\<open>keys\<close> is refused by \<^verbatim>\<open>JWK.asKey\<close>, wherever it stands
    in the array.
\<close>

theorem key_fetch_failures:
  assumes "fetch w (jwks_url c) = Some r"
  shows "(\<not> ok r \<longrightarrow>
            (\<exists>e. fst (listPublicKeys w c) = Inl e
                \<and> refreshKeyStore lib w c = (Inl e, c, [jwks_url c])
                \<and> (\<forall>body. resp_text r = Some body \<longrightarrow>
                      e = Error (ustr ''Request failed with '' @ js_string_of_nat (status r)
                                 @ ustr '' '' @ statusText r @ ustr '', '' @ body))))
       \<and> (ok r \<and> resp_json r = None \<longrightarrow>
            fst (listPublicKeys w c) = Inl FetchError
          \<and> refreshKeyStore lib w c = (Inl FetchError, c, [jwks_url c]))
       \<and> (\<forall>j. ok r \<and> resp_json r = Some j \<and> keys_of j = None \<longrightarrow>
            refreshKeyStore lib w c = (Inl TypeError, c, [jwks_url c]))
       \<and> (\<forall>j js. ok r \<and> resp_json r = Some j \<and> keys_of j = Some js
                  \<and> (\<exists>x \<in> set js. asKey lib x = None) \<longrightarrow>
            refreshKeyStore lib w c = (Inl KeyError, c, [jwks_url c]))"
proof (intro conjI impI allI)
  assume "\<not> ok r"
  then show "\<exists>e. fst (listPublicKeys w c) = Inl e
                \<and> refreshKeyStore lib w c = (Inl e, c, [jwks_url c])
                \<and> (\<forall>body. resp_text r = Some body \<longrightarrow>
                      e = Error (ustr ''Request failed with '' @ js_string_of_nat (status r)
                                 @ ustr '' '' @ statusText r @ ustr '', '' @ body))"
    using assms
    by (cases "resp_text r") (simp_all add: refreshKeyStore_def listPublicKeys_def Let_def)
next
  assume "ok r \<and> resp_json r = None"
  then show "fst (listPublicKeys w c) = Inl FetchError"
    using assms by (simp add: listPublicKeys_def Let_def)
next
  assume "ok r \<and> resp_json r = None"
  then show "refreshKeyStore lib w c = (Inl FetchError, c, [jwks_url c])"
    using assms by (simp add: refreshKeyStore_def listPublicKeys_def Let_def)
next
  fix j
  assume "ok r \<and> resp_json r = Some j \<and> keys_of j = None"
  then show "refreshKeyStore lib w c = (Inl TypeError, c, [jwks_url c])"
    using assms by (simp add: refreshKeyStore_def listPublicKeys_def Let_def)
next
  fix j js
  assume a: "ok r \<and> resp_json r = Some j \<and> keys_of j = Some js
                  \<and> (\<exists>x \<in> set js. asKey lib x = None)"
  then have "map_asKey (asKey lib) js = None"
    by (simp add: map_asKey_None)
  then show "refreshKeyStore lib w c = (Inl KeyError, c, [jwks_url c])"
    using assms a by (simp add: refreshKeyStore_def listPublicKeys_def Let_def)
qed

theorem key_fetch_failures_witness:
  "fetch demo_world_down (jwks_url demo_client)
     = Some \<lparr>ok = False, status = 503, statusText = ustr ''Service Unavailable'',
             resp_text = Some (ustr ''down''), resp_json = None\<rparr>
   \<and> refreshKeyStore demo_jose demo_world_down demo_client
        = (Inl (Error (ustr ''Request failed with 503 Service Unavailable, down'')),
           demo_client, [demo_url])"
proof -
  have h: "fetch demo_world_down (jwks_url demo_client)
     = Some \<lparr>ok = False, status = 503, statusText = ustr ''Service Unavailable'',
             resp_text = Some (ustr ''down''), resp_json = None\<rparr>"
    by (simp add: demo_world_down_def)
  from key_fetch_failures [OF h, of demo_jose]
  have "refreshKeyStore demo_jose demo_world_down demo_client
        = (Inl (Error (ustr ''Request failed with 503 Service Unavailable, down'')),
           demo_client, [demo_url])"
    by (auto simp: demo_status demo_jwks_url ustr_def)
  with h show ?thesis by simp
qed

subsection \<open>C7: a failed refresh\<close>

text \<open>
  C7. If the refresh fails with an error, whatever its cause, the key store and the time
  of its last refresh are what they were; and every call of \<open>authenticate\<close> that comes to
  that refresh (the key is missing and the token is newer than the store) fails with that
  error, as a result of the call, and leaves the client as it was.
\<close>

theorem refresh_failure_keeps_store:
  assumes "fst (refreshKeyStore lib w c) = Inl e"
  shows "fst (snd (refreshKeyStore lib w c)) = c
       \<and> (\<forall>hdr token d.
            getBearerToken hdr = Some token \<and> jwt_decode lib token = Some d
            \<and> KeyStore_get (keyStore c) (kid (header d)) = None
            \<and> issued_after d (keyStoreUpdated c) \<longrightarrow>
            authenticate lib w c hdr = (Inl e, c, [jwks_url c]))"
proof (intro conjI allI impI)
  show st: "fst (snd (refreshKeyStore lib w c)) = c"
    using assms by (rule refreshKeyStore_failure)
  fix hdr token d
  assume a: "getBearerToken hdr = Some token \<and> jwt_decode lib token = Some d
            \<and> KeyStore_get (keyStore c) (kid (header d)) = None
            \<and> issued_after d (keyStoreUpdated c)"
  have r: "refreshKeyStore lib w c = (Inl e, c, [jwks_url c])"
    using assms st refreshKeyStore_log [of lib w c] by (cases "refreshKeyStore lib w c") simp
  have "getKey lib w c token = (Inl e, c, [jwks_url c])"
    using a r by (simp add: getKey_miss_refresh)
  then show "authenticate lib w c hdr = (Inl e, c, [jwks_url c])"
    using a getBearerToken_nonempty [of hdr token] by (simp add: authenticate_def)
qed

theorem refresh_failure_keeps_store_witness:
  "fst (refreshKeyStore demo_jose demo_world_down demo_client) = Inl demo_failure
   \<and> fst (snd (refreshKeyStore demo_jose demo_world_down demo_client)) = demo_client
   \<and> authenticate demo_jose demo_world_down demo_client (HString (ustr ''Bearer h.p.s''))
       = (Inl demo_failure, demo_client, [demo_url])"
proof -
  have h: "fst (refreshKeyStore demo_jose demo_world_down demo_client) = Inl demo_failure"
    by (simp add: demo_down)
  from refresh_failure_keeps_store [OF h] bearer_hps decode_hps demo_miss demo_issued_after
  have "authenticate demo_jose demo_world_down demo_client (HString (ustr ''Bearer h.p.s''))
       = (Inl demo_failure, demo_client, [demo_url])"
    by (simp add: demo_jwks_url)
  with h refresh_failure_keeps_store [OF h] show ?thesis by simp
qed

subsection \<open>C8: the same token twice\<close>

text \<open>
  C8. If a call of \<open>authenticate\<close> returns an identity and leaves the client \<open>c1\<close>, then a
  second call with the same header on \<open>c1\<close>, at a time when the token is still within its
  validity, returns the same identity, leaves \<open>c1\<close> as it is and fetches nothing,
  whatever the first call fetched and whatever the issuer would answer now.
\<close>

theorem authenticate_twice:
  assumes "authenticate lib w1 c hdr = (Inr user, c1, fs1)"
    and "getBearerToken hdr = Some token"
    and "jwt_decode lib token = Some d"
    and "payload d = Some p"
    and "time_valid p (verify_time w2)"
  shows "authenticate lib w2 c1 hdr = (Inr user, c1, [])"
proof -
  have ne: "token \<noteq> []"
    using assms(2) by (rule getBearerToken_nonempty)
  obtain k where gk: "getKey lib w1 c token = (Inr (Some k), c1, fs1)"
    and v1: "IdToken_verify lib token k (verify_options_of c1) (verify_time w1) = Inr p"
    and user: "user = \<lparr>identity_id = sub p, idToken = token\<rparr>"
    using assms(1,2,3,4) ne
    by (auto simp: authenticate_def IdToken_verify_def
             split: prod.splits sum.splits option.splits if_splits)
  have found: "KeyStore_get (keyStore c1) (kid (header d)) = Some k"
    using gk assms(3) by (rule getKey_found_in_store)
  have gk2: "getKey lib w2 c1 token = (Inr (Some k), c1, [])"
    using assms(3) found by (rule getKey_hit)
  have v2: "IdToken_verify lib token k (verify_options_of c1) (verify_time w2) = Inr p"
    using v1 assms(3,4,5) by (auto simp: IdToken_verify_def split: if_splits)
  show ?thesis
    using assms(2) ne gk2 v2 user by (simp add: authenticate_def)
qed

theorem authenticate_twice_witness:
  "authenticate demo_jose demo_world demo_client (HString (ustr ''Bearer h.p.s''))
     = (Inr demo_identity, demo_client_fetched, [demo_url])
   \<and> getBearerToken (HString (ustr ''Bearer h.p.s'')) = Some (ustr ''h.p.s'')
   \<and> jwt_decode demo_jose (ustr ''h.p.s'') = Some demo_decoded
   \<and> payload demo_decoded = Some demo_payload
   \<and> time_valid demo_payload (verify_time demo_world_later)
   \<and> authenticate demo_jose demo_world_later demo_client_fetched
        (HString (ustr ''Bearer h.p.s''))
     = (Inr demo_identity, demo_client_fetched, [])"
proof -
  have h4: "payload demo_decoded = Some demo_payload"
    by (simp add: demo_decoded_def)
  have h5: "time_valid demo_payload (verify_time demo_world_later)"
    by (simp add: time_valid_def demo_payload_def demo_world_later_def)
  show ?thesis
    using authenticate_twice [OF demo_fresh_call bearer_hps decode_hps h4 h5]
      demo_fresh_call bearer_hps decode_hps h4 h5
    by simp
qed

subsection \<open>C9: a token without an issue time\<close>

text \<open>
  C9. For every token whose payload has no \<open>iat\<close>, or has \<open>iat\<close> equal to 0, a miss in
  the key store makes \<open>authenticate\<close> fail with \<open>UnknownKey\<close> without fetching anything
  and without changing the client; on a new client, whose store is empty and was updated
  at 0, this is so for every such token.
\<close>

theorem authenticate_no_iat_no_refresh:
  assumes "getBearerToken hdr = Some token"
    and "jwt_decode lib token = Some d"
    and "iat_of d = None \<or> iat_of d = Some 0"
  shows "(KeyStore_get (keyStore c) (kid (header d)) = None \<longrightarrow>
            authenticate lib w c hdr = (Inl UnknownKey, c, []))
       \<and> authenticate lib w (new_IdentityClient dsc i) hdr
            = (Inl UnknownKey, new_IdentityClient dsc i, [])"
proof -
  have stale: "\<not> issued_after d u" for u
    using assms(3) by (auto simp: issued_after_def)
  have gen: "authenticate lib w c' hdr = (Inl UnknownKey, c', [])"
    if "KeyStore_get (keyStore c') (kid (header d)) = None" for c'
    using getKey_miss_stale [OF assms(2) that stale] assms(1) getBearerToken_nonempty [OF assms(1)]
    by (simp add: authenticate_def)
  have "KeyStore_get (keyStore (new_IdentityClient dsc i)) (kid (header d)) = None"
    by (simp add: new_IdentityClient_def KeyStore_get_def)
  with gen show ?thesis by blast
qed

theorem authenticate_no_iat_no_refresh_witness:
  "getBearerToken (HString (ustr ''bearer  h.z.s'')) = Some (ustr ''h.z.s'')
   \<and> jwt_decode demo_jose (ustr ''h.z.s'')
        = Some (demo_decoded\<lparr>payload := Some (demo_payload\<lparr>iat := Some 0\<rparr>)\<rparr>)
   \<and> iat_of (demo_decoded\<lparr>payload := Some (demo_payload\<lparr>iat := Some 0\<rparr>)\<rparr>) = Some 0
   \<and> KeyStore_get (keyStore demo_client)
        (kid (header (demo_decoded\<lparr>payload := Some (demo_payload\<lparr>iat := Some 0\<rparr>)\<rparr>))) = None
   \<and> authenticate demo_jose demo_world demo_client (HString (ustr ''bearer  h.z.s''))
        = (Inl UnknownKey, demo_client, [])"
proof -
  have z: "iat_of (demo_decoded\<lparr>payload := Some (demo_payload\<lparr>iat := Some 0\<rparr>)\<rparr>) = Some 0"
    by (simp add: iat_of_def)
  then have h3: "iat_of (demo_decoded\<lparr>payload := Some (demo_payload\<lparr>iat := Some 0\<rparr>)\<rparr>) = None
            \<or> iat_of (demo_decoded\<lparr>payload := Some (demo_payload\<lparr>iat := Some 0\<rparr>)\<rparr>) = Some 0"
    by simp
  from authenticate_no_iat_no_refresh [OF bearer_hzs decode_hzs h3, of demo_client demo_world]
    demo_miss
  have "authenticate demo_jose demo_world demo_client (HString (ustr ''bearer  h.z.s''))
        = (Inl UnknownKey, demo_client, [])"
    by simp
  with bearer_hzs decode_hzs z demo_miss show ?thesis by simp
qed

subsection \<open>C10: a hit changes nothing\<close>

text \<open>
  C10. For every call of \<open>authenticate\<close> in which the first lookup finds a key for the
  key identifier of the token, the client after the call (the key store and the time of its
  last refresh among its fields) is the client before it, and nothing is fetched, whether
  the verification then accepts the token or not.
\<close>

theorem authenticate_hit_keeps_state:
  assumes "getBearerToken hdr = Some token"
    and "jwt_decode lib token = Some d"
    and "KeyStore_get (keyStore c) (kid (header d)) = Some k"
  shows "fst (snd (authenticate lib w c hdr)) = c \<and> snd (snd (authenticate lib w c hdr)) = []"
proof -
  have "getKey lib w c token = (Inr (Some k), c, [])"
    using assms(2,3) by (rule getKey_hit)
  then show ?thesis
    using assms(1) getBearerToken_nonempty [OF assms(1)]
    by (simp add: authenticate_def split: sum.splits)
qed

theorem authenticate_hit_keeps_state_witness:
  "getBearerToken (HString (ustr ''Bearer h.p.s'')) = Some (ustr ''h.p.s'')
   \<and> jwt_decode demo_jose (ustr ''h.p.s'') = Some demo_decoded
   \<and> KeyStore_get (keyStore demo_client_k1) (kid (header demo_decoded)) = Some demo_key
   \<and> fst (snd (authenticate demo_jose demo_world demo_client_k1
                  (HString (ustr ''Bearer h.p.s'')))) = demo_client_k1
   \<and> snd (snd (authenticate demo_jose demo_world demo_client_k1
                  (HString (ustr ''Bearer h.p.s'')))) = []"
  using authenticate_hit_keeps_state [OF bearer_hps decode_hps demo_hit, of demo_world]
    bearer_hps decode_hps demo_hit
  by simp

end
